theory Spec2Isabelle
  imports Main "HOL-Library.Sublist"
begin

section \<open>Python values\<close>

text \<open>
  The program of \<^verbatim>\<open>app.py\<close> handles three kinds of run-time value: text, decoded JSON
  and exceptions. A \<^typ>\<open>string\<close> is a Python \<^verbatim>\<open>str\<close> whose code points are below 256.
  A decoded JSON value is what \<^verbatim>\<open>resp.json()\<close> and \<^verbatim>\<open>request.json\<close> hand back: \<^verbatim>\<open>None\<close>,
  \<^verbatim>\<open>bool\<close>, \<^verbatim>\<open>int\<close>, \<^verbatim>\<open>float\<close>, \<^verbatim>\<open>str\<close>, \<^verbatim>\<open>list\<close> and \<^verbatim>\<open>dict\<close> with \<^verbatim>\<open>str\<close> keys (an association
  list in insertion order). The program only ever prints a float and tests it for
  truth, so a float is represented by these two observations.
\<close>

datatype pyfloat = PyFloat (float_repr: string) (float_nonzero: bool)

datatype json =
    JNull
  | JBool bool
  | JInt int
  | JFloat pyfloat
  | JString string
  | JArray "json list"
  | JObject "(string \<times> json) list"

text \<open>
  Exceptions are the subclasses of \<^verbatim>\<open>Exception\<close>, the ones \<^verbatim>\<open>except Exception\<close> catches. Each
  carries the text \<^verbatim>\<open>str(e)\<close> gives. \<open>LibraryError\<close> stands for everything raised by
  \<^verbatim>\<open>requests\<close>, \<^verbatim>\<open>flask\<close> and \<^verbatim>\<open>openai\<close>.
\<close>

datatype py_exn =
    TypeError string
  | KeyError string
  | IndexError string
  | AttributeError string
  | LibraryError string

fun exn_str :: "py_exn \<Rightarrow> string" where
  "exn_str (TypeError m) = m"
| "exn_str (KeyError m) = m"
| "exn_str (IndexError m) = m"
| "exn_str (AttributeError m) = m"
| "exn_str (LibraryError m) = m"

definition exn_bind :: "py_exn + 'a \<Rightarrow> ('a \<Rightarrow> py_exn + 'b) \<Rightarrow> py_exn + 'b" where
  "exn_bind m f = (case m of Inl e \<Rightarrow> Inl e | Inr v \<Rightarrow> f v)"

text \<open>\<^verbatim>\<open>a and b\<close> on conditions that may raise: \<open>b\<close> is looked at only when \<open>a\<close> is true.\<close>

definition py_and :: "py_exn + bool \<Rightarrow> py_exn + bool \<Rightarrow> py_exn + bool" where
  "py_and a b = (case a of Inl e \<Rightarrow> Inl e | Inr c \<Rightarrow> if c then b else Inr False)"

subsection \<open>\<^verbatim>\<open>str\<close> and \<^verbatim>\<open>repr\<close>\<close>

definition digit_char :: "nat \<Rightarrow> char" where
  "digit_char n = ''0123456789abcdef'' ! n"

fun str_nat :: "nat \<Rightarrow> string" where
  "str_nat n = (if n < 10 then [digit_char n] else str_nat (n div 10) @ [digit_char (n mod 10)])"

definition str_int :: "int \<Rightarrow> string" where
  "str_int i = (if i < 0 then CHR ''-'' # str_nat (nat (- i)) else str_nat (nat i))"

definition printable :: "char \<Rightarrow> bool" where
  "printable c = (let n = (of_char c :: nat) in
     32 \<le> n \<and> n \<noteq> 127 \<and> \<not> (128 \<le> n \<and> n \<le> 160) \<and> n \<noteq> 173)"

definition repr_char :: "char \<Rightarrow> char \<Rightarrow> string" where
  "repr_char quote c =
     (if c = quote \<or> c = CHR 0x5C then [CHR 0x5C, c]
      else if c = CHR 0x09 then [CHR 0x5C, CHR ''t'']
      else if c = CHR 0x0A then [CHR 0x5C, CHR ''n'']
      else if c = CHR 0x0D then [CHR 0x5C, CHR ''r'']
      else if printable c then [c]
      else [CHR 0x5C, CHR ''x'', digit_char (of_char c div 16), digit_char (of_char c mod 16)])"

definition repr_str :: "string \<Rightarrow> string" where
  "repr_str s =
     (let quote = (if CHR 0x27 \<in> set s \<and> CHR 0x22 \<notin> set s then CHR 0x22 else CHR 0x27)
      in quote # concat (map (repr_char quote) s) @ [quote])"

fun join_with :: "string \<Rightarrow> string list \<Rightarrow> string" where
  "join_with sep [] = []"
| "join_with sep [x] = x"
| "join_with sep (x # y # ys) = x @ sep @ join_with sep (y # ys)"

primrec py_repr :: "json \<Rightarrow> string" where
  "py_repr JNull = ''None''"
| "py_repr (JBool b) = (if b then ''True'' else ''False'')"
| "py_repr (JInt i) = str_int i"
| "py_repr (JFloat f) = float_repr f"
| "py_repr (JString s) = repr_str s"
| "py_repr (JArray xs) = ''['' @ join_with '', '' (map py_repr xs) @ '']''"
| "py_repr (JObject kvs) =
     ''{'' @ join_with '', ''
        (map (\<lambda>kv. repr_str (fst kv) @ '': '' @ snd kv) (map (map_prod id py_repr) kvs)) @ ''}''"

text \<open>\<^verbatim>\<open>str(v)\<close>, also what an f-string puts for \<^verbatim>\<open>{v}\<close>: a \<^verbatim>\<open>str\<close> is itself, the rest is its \<^verbatim>\<open>repr\<close>.\<close>

definition py_str :: "json \<Rightarrow> string" where
  "py_str v = (case v of JString s \<Rightarrow> s | _ \<Rightarrow> py_repr v)"

subsection \<open>The operations the program applies to decoded JSON\<close>

fun type_name :: "json \<Rightarrow> string" where
  "type_name JNull = ''NoneType''"
| "type_name (JBool b) = ''bool''"
| "type_name (JInt i) = ''int''"
| "type_name (JFloat f) = ''float''"
| "type_name (JString s) = ''str''"
| "type_name (JArray xs) = ''list''"
| "type_name (JObject kvs) = ''dict''"

fun is_list :: "json \<Rightarrow> bool" where
  "is_list (JArray xs) = True"
| "is_list v = False"

fun is_dict :: "json \<Rightarrow> bool" where
  "is_dict (JObject kvs) = True"
| "is_dict v = False"

text \<open>Truth value of a Python object, as \<^verbatim>\<open>if not code\<close> tests it.\<close>

fun py_truthy :: "json \<Rightarrow> bool" where
  "py_truthy JNull = False"
| "py_truthy (JBool b) = b"
| "py_truthy (JInt i) = (i \<noteq> 0)"
| "py_truthy (JFloat f) = float_nonzero f"
| "py_truthy (JString s) = (s \<noteq> [])"
| "py_truthy (JArray xs) = (xs \<noteq> [])"
| "py_truthy (JObject kvs) = (kvs \<noteq> [])"

text \<open>\<^verbatim>\<open>len(v)\<close>.\<close>

fun py_len :: "json \<Rightarrow> py_exn + nat" where
  "py_len (JString s) = Inr (length s)"
| "py_len (JArray xs) = Inr (length xs)"
| "py_len (JObject kvs) = Inr (length kvs)"
| "py_len v = Inl (TypeError (''object of type '' @ repr_str (type_name v) @ '' has no len()''))"

text \<open>\<^verbatim>\<open>k in v\<close> for a \<^verbatim>\<open>str\<close> \<open>k\<close>: a key of a dict, an element of a list, a substring of a \<^verbatim>\<open>str\<close>.\<close>

fun py_contains :: "string \<Rightarrow> json \<Rightarrow> py_exn + bool" where
  "py_contains k (JObject kvs) = Inr (k \<in> set (map fst kvs))"
| "py_contains k (JArray xs) = Inr (JString k \<in> set xs)"
| "py_contains k (JString s) = Inr (sublist k s)"
| "py_contains k v =
     Inl (TypeError (''argument of type '' @ repr_str (type_name v) @ '' is not iterable''))"

text \<open>\<^verbatim>\<open>v[k]\<close> for a \<^verbatim>\<open>str\<close> \<open>k\<close>.\<close>

fun py_getitem :: "json \<Rightarrow> string \<Rightarrow> py_exn + json" where
  "py_getitem (JObject kvs) k =
     (case map_of kvs k of None \<Rightarrow> Inl (KeyError (repr_str k)) | Some v \<Rightarrow> Inr v)"
| "py_getitem (JArray xs) k = Inl (TypeError ''list indices must be integers or slices, not str'')"
| "py_getitem (JString s) k = Inl (TypeError (''string indices must be integers, not '' @ repr_str ''str''))"
| "py_getitem v k = Inl (TypeError (repr_str (type_name v) @ '' object is not subscriptable''))"

text \<open>\<^verbatim>\<open>v[0]\<close>.\<close>

fun py_getitem0 :: "json \<Rightarrow> py_exn + json" where
  "py_getitem0 (JArray xs) =
     (case xs of [] \<Rightarrow> Inl (IndexError ''list index out of range'') | x # _ \<Rightarrow> Inr x)"
| "py_getitem0 (JString s) =
     (case s of [] \<Rightarrow> Inl (IndexError ''string index out of range'') | c # _ \<Rightarrow> Inr (JString [c]))"
| "py_getitem0 (JObject kvs) = Inl (KeyError ''0'')"
| "py_getitem0 v = Inl (TypeError (repr_str (type_name v) @ '' object is not subscriptable''))"

text \<open>\<^verbatim>\<open>v.get(k)\<close>: only a dict has the method; a missing key gives \<^verbatim>\<open>None\<close>.\<close>

fun py_get :: "json \<Rightarrow> string \<Rightarrow> py_exn + json" where
  "py_get (JObject kvs) k = Inr (case map_of kvs k of None \<Rightarrow> JNull | Some v \<Rightarrow> v)"
| "py_get v k =
     Inl (AttributeError (repr_str (type_name v) @ '' object has no attribute '' @ repr_str ''get''))"

subsection \<open>\<^verbatim>\<open>str.split\<close>, \<^verbatim>\<open>str.strip\<close>\<close>

fun py_split :: "char \<Rightarrow> string \<Rightarrow> string list" where
  "py_split sep [] = [[]]"
| "py_split sep (c # cs) =
     (if c = sep then [] # py_split sep cs
      else (case py_split sep cs of [] \<Rightarrow> [[c]] | w # ws \<Rightarrow> (c # w) # ws))"

definition is_space :: "char \<Rightarrow> bool" where
  "is_space c = (let n = (of_char c :: nat) in
     (9 \<le> n \<and> n \<le> 13) \<or> (28 \<le> n \<and> n \<le> 32) \<or> n = 133 \<or> n = 160)"

definition py_strip :: "string \<Rightarrow> string" where
  "py_strip s = rev (dropWhile is_space (rev (dropWhile is_space s)))"

section \<open>The outside world\<close>

text \<open>
  The call \<^verbatim>\<open>requests.post(url, headers=headers, json=payload, timeout=60)\<close> and what comes
  back: a \<^verbatim>\<open>requests.Response\<close> is seen through \<^verbatim>\<open>status_code\<close>, \<^verbatim>\<open>json()\<close> (a decoded value,
  or an exception when the body is not JSON) and \<^verbatim>\<open>text\<close>.
\<close>

record http_request =
  req_url :: string
  req_headers :: "(string \<times> string) list"
  req_json :: json
  req_timeout :: nat

record response =
  status_code :: int
  resp_json :: "py_exn + json"
  resp_text :: string

text \<open>
  The \<^verbatim>\<open>openai\<close> client: \<^verbatim>\<open>client.chat.completions.create(model=..., messages=[...])\<close>, with the
  messages as (role, content) pairs. The object it returns is seen through the three
  reads \<^verbatim>\<open>call_openai\<close> tries on it.
\<close>

record chat_request =
  chat_model :: string
  chat_messages :: "(string \<times> string) list"

record chat_response =
  attr_content :: "py_exn + json"
  item_content :: "py_exn + json"
  resp_str :: "py_exn + string"

text \<open>
  Every call that leaves the process is recorded, in order. The network answers a
  request knowing all that was sent before it, so two requests to one URL may be answered
  differently. \<^verbatim>\<open>OpenAI\<close> is \<open>None\<close> when the import at the top of the module failed;
  otherwise it builds a client from a key, or raises.
\<close>

datatype event =
    HttpPost http_request
  | OpenAINew string
  | ChatCreate chat_request

type_synonym network = "event list \<Rightarrow> http_request \<Rightarrow> py_exn + response"

type_synonym openai_client = "chat_request \<Rightarrow> py_exn + chat_response"

type_synonym openai_sdk = "string \<Rightarrow> py_exn + openai_client"

type_synonym environ = "string \<Rightarrow> string option"

section \<open>\<^verbatim>\<open>call_huggingface\<close>\<close>

definition hf_url :: "string \<Rightarrow> string" where
  "hf_url model = ''https://router.huggingface.co/hf-inference/'' @ model"

definition hf_headers :: "string \<Rightarrow> (string \<times> string) list" where
  "hf_headers hf_key = [(''Authorization'', ''Bearer '' @ hf_key), (''Accept'', ''application/json'')]"

definition hf_payload :: "string \<Rightarrow> json" where
  "hf_payload prompt = JObject
     [(''inputs'', JString prompt),
      (''options'', JObject [(''wait_for_model'', JBool True)]),
      (''parameters'', JObject [(''max_new_tokens'', JInt 512)])]"

definition hf_request :: "string \<Rightarrow> string \<Rightarrow> string \<Rightarrow> http_request" where
  "hf_request prompt hf_key model =
     \<lparr>req_url = hf_url model, req_headers = hf_headers hf_key,
      req_json = hf_payload prompt, req_timeout = 60\<rparr>"

text \<open>
  \<^verbatim>\<open>isinstance(data, list) and len(data) > 0 and 'generated_text' in data[0]\<close>
\<close>

definition list_cond :: "json \<Rightarrow> py_exn + bool" where
  "list_cond data =
     py_and (Inr (is_list data))
       (py_and (exn_bind (py_len data) (\<lambda>n. Inr (0 < n)))
          (exn_bind (py_getitem0 data) (py_contains ''generated_text'')))"

text \<open>
  \<^verbatim>\<open>'choices' in data and len(data['choices']) > 0 and 'text' in data['choices'][0]\<close>
\<close>

definition choices_cond :: "json \<Rightarrow> py_exn + bool" where
  "choices_cond data =
     py_and (py_contains ''choices'' data)
       (py_and (exn_bind (exn_bind (py_getitem data ''choices'') py_len) (\<lambda>n. Inr (0 < n)))
          (exn_bind (exn_bind (py_getitem data ''choices'') py_getitem0) (py_contains ''text'')))"

text \<open>The body of the \<^verbatim>\<open>try\<close> of lines 72 to 86, on a primary response of status 200.\<close>

definition primary_parse :: "response \<Rightarrow> py_exn + bool \<times> json" where
  "primary_parse resp =
     exn_bind (resp_json resp) (\<lambda>data.
     exn_bind (list_cond data) (\<lambda>c1.
       if c1 then
         exn_bind (exn_bind (py_getitem0 data) (\<lambda>d. py_getitem d ''generated_text''))
           (\<lambda>t. Inr (True, t))
       else if is_dict data then
         exn_bind (py_contains ''generated_text'' data) (\<lambda>c2.
           if c2 then exn_bind (py_getitem data ''generated_text'') (\<lambda>t. Inr (True, t))
           else exn_bind (py_contains ''error'' data) (\<lambda>c3.
             if c3 then
               exn_bind (py_getitem data ''error'')
                 (\<lambda>e. Inr (False, JString (''HF error: '' @ py_str e)))
             else exn_bind (choices_cond data) (\<lambda>c4.
               if c4 then
                 exn_bind (exn_bind (exn_bind (py_getitem data ''choices'') py_getitem0)
                             (\<lambda>d. py_getitem d ''text''))
                   (\<lambda>t. Inr (True, t))
               else Inr (True, JString (py_str data)))))
       else Inr (True, JString (py_str data))))"

text \<open>The body of the \<^verbatim>\<open>try\<close> of lines 54 to 62, on a fallback response of status 200.\<close>

definition fallback_parse :: "response \<Rightarrow> py_exn + bool \<times> json" where
  "fallback_parse resp2 =
     exn_bind (resp_json resp2) (\<lambda>data2.
     exn_bind (list_cond data2) (\<lambda>c1.
       if c1 then
         exn_bind (exn_bind (py_getitem0 data2) (\<lambda>d. py_getitem d ''generated_text''))
           (\<lambda>t. Inr (True, t))
       else
         exn_bind (py_and (Inr (is_dict data2)) (py_contains ''generated_text'' data2)) (\<lambda>c2.
           if c2 then exn_bind (py_getitem data2 ''generated_text'') (\<lambda>t. Inr (True, t))
           else exn_bind (py_and (Inr (is_dict data2)) (choices_cond data2)) (\<lambda>c3.
             if c3 then
               exn_bind (exn_bind (exn_bind (py_getitem data2 ''choices'') py_getitem0)
                           (\<lambda>d. py_getitem d ''text''))
                 (\<lambda>t. Inr (True, t))
             else Inr (True, JString (py_str data2))))))"

text \<open>
  The list the loop of line 48 runs over: the three built-in models, or the non-empty
  stripped parts of \<^verbatim>\<open>HUGGINGFACE_FALLBACK_MODELS\<close> when that is set and not empty.
\<close>

definition fallback_models :: "environ \<Rightarrow> string list" where
  "fallback_models env =
     (case env ''HUGGINGFACE_FALLBACK_MODELS'' of
        None \<Rightarrow> [''gpt2'', ''bigscience/bloom-560m'', ''facebook/opt-350m'']
      | Some env_fallback \<Rightarrow>
          if env_fallback \<noteq> [] then
            map py_strip (filter (\<lambda>m. py_strip m \<noteq> []) (py_split CHR '','' env_fallback))
          else [''gpt2'', ''bigscience/bloom-560m'', ''facebook/opt-350m''])"

text \<open>
  The loop of lines 48 to 64. \<open>Some r\<close> is a \<^verbatim>\<open>return r\<close> from inside the loop, \<open>None\<close>
  is the loop running to its end.
\<close>

fun fallback_loop ::
  "network \<Rightarrow> string \<Rightarrow> string \<Rightarrow> string list \<Rightarrow> event list \<Rightarrow> (bool \<times> json) option \<times> event list"
where
  "fallback_loop net prompt hf_key [] log = (None, log)"
| "fallback_loop net prompt hf_key (fm # fms) log =
     (let rq = hf_request prompt hf_key fm; log' = log @ [HttpPost rq] in
      case net log rq of
        Inl e \<Rightarrow> fallback_loop net prompt hf_key fms log'
      | Inr resp2 \<Rightarrow>
          if status_code resp2 = 200 then
            (case fallback_parse resp2 of
               Inl e \<Rightarrow> (Some (False, JString (''Parse error from fallback model '' @ fm)), log')
             | Inr r \<Rightarrow> (Some r, log'))
          else fallback_loop net prompt hf_key fms log')"

text \<open>Lines 66 to 70: the error built from a response that is not 200.\<close>

definition error_result :: "response \<Rightarrow> bool \<times> json" where
  "error_result resp =
     (case resp_json resp of
        Inr j \<Rightarrow> (False, JString (''Error '' @ str_int (status_code resp) @ '': '' @ py_str j))
      | Inl e \<Rightarrow> (False, JString (''Error '' @ str_int (status_code resp) @ '': '' @ resp_text resp)))"

definition call_huggingface ::
  "network \<Rightarrow> environ \<Rightarrow> string \<Rightarrow> string \<Rightarrow> string \<Rightarrow> event list
     \<Rightarrow> (py_exn + bool \<times> json) \<times> event list"
where
  "call_huggingface net env prompt hf_key model log =
     (let rq = hf_request prompt hf_key model; log1 = log @ [HttpPost rq] in
      case net log rq of
        Inl e \<Rightarrow> (Inr (False, JString (''Request error: '' @ exn_str e)), log1)
      | Inr resp \<Rightarrow>
          if status_code resp \<noteq> 200 then
            (case (if status_code resp = 404
                   then fallback_loop net prompt hf_key (fallback_models env) log1
                   else (None, log1)) of
               (Some r, log2) \<Rightarrow> (Inr r, log2)
             | (None, log2) \<Rightarrow> (Inr (error_result resp), log2))
          else
            (case primary_parse resp of
               Inl e \<Rightarrow> (Inr (False, JString (''Parse error: '' @ exn_str e)), log1)
             | Inr r \<Rightarrow> (Inr r, log1)))"

section \<open>\<^verbatim>\<open>call_openai\<close>\<close>

definition system_instruction :: string where
  "system_instruction =
     ''You are a technical documentation expert. Generate clear and concise documentation for the given code.''"

definition openai_request :: "string \<Rightarrow> string \<Rightarrow> chat_request" where
  "openai_request prompt model =
     \<lparr>chat_model = model,
      chat_messages = [(''system'', system_instruction), (''user'', prompt)]\<rparr>"

text \<open>
  Lines 105 to 111, inside the outer \<^verbatim>\<open>try\<close>: the attribute read, then the subscript
  read, then \<^verbatim>\<open>str(response)\<close>.
\<close>

definition extract_content :: "chat_response \<Rightarrow> py_exn + bool \<times> json" where
  "extract_content response =
     (case attr_content response of
        Inr c \<Rightarrow> Inr (True, c)
      | Inl e1 \<Rightarrow>
          (case item_content response of
             Inr c \<Rightarrow> Inr (True, c)
           | Inl e2 \<Rightarrow> exn_bind (resp_str response) (\<lambda>s. Inr (True, JString s))))"

definition call_openai ::
  "openai_sdk option \<Rightarrow> string \<Rightarrow> string \<Rightarrow> string \<Rightarrow> event list
     \<Rightarrow> (py_exn + bool \<times> json) \<times> event list"
where
  "call_openai OpenAI prompt openai_key model log =
     (case OpenAI of
        None \<Rightarrow> (Inr (False, JString ''OpenAI client not installed in environment.''), log)
      | Some new_client \<Rightarrow>
          (let log1 = log @ [OpenAINew openai_key] in
           case new_client openai_key of
             Inl e \<Rightarrow> (Inr (False, JString (exn_str e)), log1)
           | Inr client \<Rightarrow>
               (let rq = openai_request prompt model; log2 = log1 @ [ChatCreate rq] in
                case exn_bind (client rq) extract_content of
                  Inl e \<Rightarrow> (Inr (False, JString (exn_str e)), log2)
                | Inr r \<Rightarrow> (Inr r, log2))))"

section \<open>\<^verbatim>\<open>generate_docs\<close>\<close>

text \<open>
  What the route returns: the body given to \<^verbatim>\<open>jsonify\<close> and the status, 200 where the
  code gives none.
\<close>

type_synonym flask_response = "json \<times> int"

definition instruction_text :: string where
  "instruction_text =
     ''Please generate ONLY a documentation docstring or block comment for the following code. '' @
     ''Return only the docstring or comment text (no extra explanation).\<newline>\<newline>''"

definition build_prompt :: "json \<Rightarrow> string" where
  "build_prompt code =
     instruction_text @ ''Code:\<newline>'' @ py_str code @ ''\<newline>\<newline>Documentation:''"

text \<open>\<^verbatim>\<open>key and key.startswith(p)\<close>, for the value of \<^verbatim>\<open>os.environ.get\<close>.\<close>

definition key_with_prefix :: "string \<Rightarrow> string option \<Rightarrow> string option" where
  "key_with_prefix p key =
     (case key of
        None \<Rightarrow> None
      | Some k \<Rightarrow> if k \<noteq> [] \<and> prefix p k then Some k else None)"

text \<open>
  Lines 144 to 147 and 152 to 155: the provider's pair becomes the response.
\<close>

definition respond :: "bool \<times> json \<Rightarrow> flask_response" where
  "respond r =
     (case r of
        (True, result) \<Rightarrow> (JObject [(''documentation'', result)], 200)
      | (False, result) \<Rightarrow> (JObject [(''error'', result)], 502))"

definition no_key_message :: string where
  "no_key_message = ''No API key found. Set HUGGINGFACE_API_KEY (hf_...) or OPENAI_API_KEY (sk_...).''"

text \<open>
  The body of the \<^verbatim>\<open>try\<close> of lines 124 to 166. The argument \<open>request_json\<close> is what
  reading \<^verbatim>\<open>request.json\<close> does: it raises, or gives the decoded body. Lines 158 to 164
  assign two locals that nothing reads.
\<close>

definition generate_docs_try ::
  "openai_sdk option \<Rightarrow> network \<Rightarrow> environ \<Rightarrow> py_exn + json \<Rightarrow> event list
     \<Rightarrow> (py_exn + flask_response) \<times> event list"
where
  "generate_docs_try OpenAI net env request_json log =
     (case exn_bind request_json (\<lambda>j. py_get j ''code'') of
        Inl e \<Rightarrow> (Inl e, log)
      | Inr code \<Rightarrow>
          if \<not> py_truthy code then (Inr (JObject [(''error'', JString ''No code provided'')], 400), log)
          else
            (let prompt = build_prompt code;
                 hf_key = env ''HUGGINGFACE_API_KEY'';
                 openai_key = env ''OPENAI_API_KEY''
             in
             case key_with_prefix ''hf_'' hf_key of
               Some k \<Rightarrow>
                 (let hf_model = (case env ''HUGGINGFACE_MODEL'' of
                                    None \<Rightarrow> ''google/flan-t5-large'' | Some m \<Rightarrow> m)
                  in
                  case call_huggingface net env prompt k hf_model log of
                    (Inl e, log') \<Rightarrow> (Inl e, log')
                  | (Inr r, log') \<Rightarrow> (Inr (respond r), log'))
             | None \<Rightarrow>
                 (case key_with_prefix ''sk-'' openai_key of
                    Some k \<Rightarrow>
                      (case call_openai OpenAI prompt k ''gpt-3.5-turbo'' log of
                         (Inl e, log') \<Rightarrow> (Inl e, log')
                       | (Inr r, log') \<Rightarrow> (Inr (respond r), log'))
                  | None \<Rightarrow> (Inr (JObject [(''error'', JString no_key_message)], 400), log))))"

text \<open>The route: the \<^verbatim>\<open>try\<close> with its catch-all of lines 168 and 169.\<close>

definition generate_docs ::
  "openai_sdk option \<Rightarrow> network \<Rightarrow> environ \<Rightarrow> py_exn + json \<Rightarrow> event list
     \<Rightarrow> flask_response \<times> event list"
where
  "generate_docs OpenAI net env request_json log =
     (case generate_docs_try OpenAI net env request_json log of
        (Inl e, log') \<Rightarrow> ((JObject [(''error'', JString (exn_str e))], 500), log')
      | (Inr r, log') \<Rightarrow> (r, log'))"

section \<open>Describing runs\<close>

text \<open>
  Every attempt of the fallback loop fails: the request to each model of the list, sent
  with the record of calls as it stands at that moment, raises or comes back with a status
  that is not 200.
\<close>

fun fallbacks_all_fail :: "network \<Rightarrow> string \<Rightarrow> string \<Rightarrow> string list \<Rightarrow> event list \<Rightarrow> bool" where
  "fallbacks_all_fail net prompt hf_key [] log = True"
| "fallbacks_all_fail net prompt hf_key (fm # fms) log =
     ((case net log (hf_request prompt hf_key fm) of
         Inl e \<Rightarrow> True
       | Inr resp2 \<Rightarrow> status_code resp2 \<noteq> 200)
      \<and> fallbacks_all_fail net prompt hf_key fms (log @ [HttpPost (hf_request prompt hf_key fm)]))"

text \<open>
  Concrete surroundings for the example runs below: a network that answers by URL and
  refuses the connection to any other, three responses, an SDK whose client answers every
  request with one completion, and a request body.
\<close>

definition net_by_url :: "(string \<times> response) list \<Rightarrow> network" where
  "net_by_url table log rq =
     (case map_of table (req_url rq) of
        None \<Rightarrow> Inl (LibraryError ''Connection refused'')
      | Some r \<Rightarrow> Inr r)"

definition not_found :: response where
  \<open>not_found =
     \<lparr>status_code = 404,
      resp_json = Inr (JObject [(''error'', JString ''Not Found'')]),
      resp_text = ''{"error": "Not Found"}''\<rparr>\<close>

definition unavailable :: response where
  "unavailable =
     \<lparr>status_code = 503,
      resp_json = Inl (LibraryError ''Expecting value: line 1 column 1 (char 0)''),
      resp_text = ''Service Unavailable''\<rparr>"

definition ok_json :: "json \<Rightarrow> response" where
  "ok_json j = \<lparr>status_code = 200, resp_json = Inr j, resp_text = []\<rparr>"

definition working_sdk :: openai_sdk where
  "working_sdk openai_key =
     Inr (\<lambda>rq. Inr \<lparr>attr_content = Inr (JString ''Adds two numbers.''),
                     item_content = Inl (TypeError ''object is not subscriptable''),
                     resp_str = Inr ''ChatCompletion''\<rparr>)"

definition body_with_code :: "string \<Rightarrow> py_exn + json" where
  "body_with_code c = Inr (JObject [(''code'', JString c)])"

definition hf_env :: environ where
  "hf_env = [''HUGGINGFACE_API_KEY'' \<mapsto> ''hf_demo'']"

definition openai_env :: environ where
  "openai_env = [''HUGGINGFACE_API_KEY'' \<mapsto> ''demo'', ''OPENAI_API_KEY'' \<mapsto> ''sk-demo'']"

section \<open>Properties\<close>

subsection \<open>Auxiliary facts\<close>

lemma fallback_parse_ok: "fallback_parse r = Inr (ok, v) \<Longrightarrow> ok"
  by (auto simp: fallback_parse_def exn_bind_def split: sum.splits if_splits)

lemma primary_parse_failure_str: "primary_parse r = Inr (False, v) \<Longrightarrow> \<exists>m. v = JString m"
  by (auto simp: primary_parse_def exn_bind_def split: sum.splits if_splits)

lemma fallback_loop_failure_str:
  "fallback_loop net p k fms log = (Some (False, v), log') \<Longrightarrow> \<exists>m. v = JString m"
proof (induction fms arbitrary: log)
  case Nil
  then show ?case by simp
next
  case (Cons fm fms)
  then show ?case
    by (auto simp: Let_def split: sum.splits if_splits dest: fallback_parse_ok)
qed

lemma error_result_str: "\<exists>m. error_result r = (False, JString m)"
  by (simp add: error_result_def split: sum.splits)

lemma fallback_loop_log: "\<exists>rest. snd (fallback_loop net p k fms log) = log @ rest"
proof (induction fms arbitrary: log)
  case Nil
  then show ?case by simp
next
  case (Cons fm fms)
  obtain rest where "snd (fallback_loop net p k fms (log @ [HttpPost (hf_request p k fm)]))
      = (log @ [HttpPost (hf_request p k fm)]) @ rest"
    using Cons.IH by blast
  then show ?case
    by (auto simp: Let_def split: sum.splits)
qed

lemma fallback_loop_exhausted:
  "fallbacks_all_fail net p k fms log \<Longrightarrow>
   fallback_loop net p k fms log = (None, log @ map (\<lambda>fm. HttpPost (hf_request p k fm)) fms)"
  by (induction fms arbitrary: log) (auto simp: Let_def split: sum.splits)

lemma str_int_404: "str_int 404 = ''404''"
  by code_simp

lemma call_huggingface_returns:
  "\<exists>ok v log'. call_huggingface net env p k model log = (Inr (ok, v), log')
      \<and> (ok \<or> (\<exists>m. v = JString m))"
proof (cases "net log (hf_request p k model)")
  case (Inl e)
  then show ?thesis by (auto simp add: call_huggingface_def Let_def)
next
  case (Inr resp)
  show ?thesis
  proof (cases "status_code resp = 200")
    case True
    show ?thesis
    proof (cases "primary_parse resp")
      case (Inl e)
      with Inr True show ?thesis by (auto simp add: call_huggingface_def Let_def)
    next
      case r: (Inr r)
      obtain ok v where "r = (ok, v)" by (cases r)
      with Inr True r primary_parse_failure_str [of resp v] show ?thesis
        by (cases ok) (auto simp add: call_huggingface_def Let_def)
    qed
  next
    case False
    obtain early log2 where e:
      "(if status_code resp = 404
        then fallback_loop net p k (fallback_models env) (log @ [HttpPost (hf_request p k model)])
        else (None, log @ [HttpPost (hf_request p k model)])) = (early, log2)"
      by (metis surj_pair)
    show ?thesis
    proof (cases early)
      case None
      with Inr False e error_result_str [of resp] show ?thesis
        by (auto simp add: call_huggingface_def Let_def)
    next
      case (Some r)
      obtain ok v where r: "r = (ok, v)" by (cases r)
      from e Some r have
        "fallback_loop net p k (fallback_models env) (log @ [HttpPost (hf_request p k model)])
           = (Some (ok, v), log2)"
        by (auto split: if_splits)
      then have "ok \<or> (\<exists>m. v = JString m)"
        using fallback_loop_failure_str by (cases ok) auto
      with Inr False e Some r show ?thesis
        by (auto simp add: call_huggingface_def Let_def)
    qed
  qed
qed

lemma call_openai_returns:
  "\<exists>ok v log'. call_openai OpenAI p k model log = (Inr (ok, v), log')
      \<and> (ok \<or> (\<exists>m. v = JString m))"
  by (auto simp: call_openai_def Let_def extract_content_def exn_bind_def
           split: option.splits sum.splits)

lemma call_huggingface_log:
  "\<exists>rest. snd (call_huggingface net env p k model log)
      = log @ HttpPost (hf_request p k model) # rest"
  using fallback_loop_log [of net p k "fallback_models env" "log @ [HttpPost (hf_request p k model)]"]
  by (auto simp: call_huggingface_def Let_def split: sum.splits prod.splits option.splits)

lemma key_with_prefix_None:
  "key_with_prefix p key = None \<longleftrightarrow>
     (\<forall>k. key = Some k \<longrightarrow> \<not> prefix p k) \<or> (p = [] \<and> key = Some [])"
  by (auto simp: key_with_prefix_def split: option.splits)

lemma key_with_prefix_Some:
  "key = Some k \<Longrightarrow> prefix (c # p) k \<Longrightarrow> key_with_prefix (c # p) key = Some k"
  by (auto simp: key_with_prefix_def)

lemma generate_docs_try_no_key_log:
  assumes "key_with_prefix ''hf_'' (env ''HUGGINGFACE_API_KEY'') = None"
    and "key_with_prefix ''sk-'' (env ''OPENAI_API_KEY'') = None"
  shows "snd (generate_docs_try OpenAI net env request_json log) = log"
  using assms by (auto simp: generate_docs_try_def Let_def split: sum.splits)

subsection \<open>The chat-completion client without its SDK\<close>

text \<open>
  Claim C7. When the \<^verbatim>\<open>openai\<close> import failed (\<^verbatim>\<open>OpenAI is None\<close>), every call of
  \<^verbatim>\<open>call_openai\<close> returns the failure with the fixed text
  \<^verbatim>\<open>OpenAI client not installed in environment.\<close>, and the record of outside calls is
  the one it started with: nothing was built and nothing was sent.
\<close>

theorem call_openai_unavailable:
  "call_openai None prompt openai_key model log =
     (Inr (False, JString ''OpenAI client not installed in environment.''), log)"
  by (simp add: call_openai_def)

subsection \<open>A 200 answer of a fallback model that carries an error\<close>

text \<open>
  Claim C1. The claim says that a fallback answer of status 200 goes through the same
  reading as a primary one, so that a body \<^verbatim>\<open>{"error": ...}\<close> without \<^verbatim>\<open>generated_text\<close> ends
  in a failure. The loop has its own copy of the reading (lines 54 to 62) and that copy
  has no test for \<^verbatim>\<open>'error'\<close>. The run below has the primary model answer 404 and
  \<^verbatim>\<open>gpt2\<close> answer 200 with \<^verbatim>\<open>{"error": "blew up"}\<close>: \<^verbatim>\<open>call_huggingface\<close> returns success with
  the printed dict as its text, while the primary reading of the very same response
  returns the failure \<^verbatim>\<open>HF error: blew up\<close>.
\<close>

theorem fallback_error_body_returns_success:
  "call_huggingface
     (net_by_url
        [(hf_url ''google/flan-t5-large'', not_found),
         (hf_url ''gpt2'', ok_json (JObject [(''error'', JString ''blew up'')]))])
     (\<lambda>k. None) ''p'' ''hf_demo'' ''google/flan-t5-large'' []
   = (Inr (True, JString ''{'error': 'blew up'}''),
      [HttpPost (hf_request ''p'' ''hf_demo'' ''google/flan-t5-large''),
       HttpPost (hf_request ''p'' ''hf_demo'' ''gpt2'')])
   \<and> primary_parse (ok_json (JObject [(''error'', JString ''blew up'')]))
       = Inr (False, JString ''HF error: blew up'')"
  by code_simp

subsection \<open>Fallbacks that all fail\<close>

text \<open>
  Claim C2. When the primary answer has status 404 and every attempt of the fallback loop
  raises or has a status other than 200, \<^verbatim>\<open>call_huggingface\<close> returns the failure built from
  the primary answer: \<^verbatim>\<open>Error 404: \<close> followed by its decoded JSON body when \<^verbatim>\<open>json()\<close> gives
  one, by its raw text otherwise. Each model of the list was asked once, in order.
\<close>

theorem exhausted_fallbacks_original_error:
  assumes "net log (hf_request prompt hf_key model) = Inr resp"
    and "status_code resp = 404"
    and "fallbacks_all_fail net prompt hf_key (fallback_models env)
           (log @ [HttpPost (hf_request prompt hf_key model)])"
  shows "call_huggingface net env prompt hf_key model log =
           (Inr (False, JString (''Error 404: '' @
                   (case resp_json resp of Inr j \<Rightarrow> py_str j | Inl e \<Rightarrow> resp_text resp))),
            log @ HttpPost (hf_request prompt hf_key model)
                # map (\<lambda>fm. HttpPost (hf_request prompt hf_key fm)) (fallback_models env))"
  using assms fallback_loop_exhausted [OF assms(3)]
  by (simp add: call_huggingface_def Let_def error_result_def str_int_404 split: sum.splits)

theorem exhausted_fallbacks_original_error_witness:
  "net_by_url [(hf_url ''google/flan-t5-large'', not_found), (hf_url ''gpt2'', unavailable)] []
       (hf_request ''p'' ''hf_demo'' ''google/flan-t5-large'') = Inr not_found
   \<and> status_code not_found = 404
   \<and> fallbacks_all_fail
        (net_by_url [(hf_url ''google/flan-t5-large'', not_found), (hf_url ''gpt2'', unavailable)])
        ''p'' ''hf_demo'' (fallback_models (\<lambda>k. None))
        ([] @ [HttpPost (hf_request ''p'' ''hf_demo'' ''google/flan-t5-large'')])
   \<and> call_huggingface
        (net_by_url [(hf_url ''google/flan-t5-large'', not_found), (hf_url ''gpt2'', unavailable)])
        (\<lambda>k. None) ''p'' ''hf_demo'' ''google/flan-t5-large'' []
      = (Inr (False, JString ''Error 404: {'error': 'Not Found'}''),
         [HttpPost (hf_request ''p'' ''hf_demo'' ''google/flan-t5-large''),
          HttpPost (hf_request ''p'' ''hf_demo'' ''gpt2''),
          HttpPost (hf_request ''p'' ''hf_demo'' ''bigscience/bloom-560m''),
          HttpPost (hf_request ''p'' ''hf_demo'' ''facebook/opt-350m'')])"
proof -
  let ?net = "net_by_url [(hf_url ''google/flan-t5-large'', not_found), (hf_url ''gpt2'', unavailable)]"
  have h1: "?net [] (hf_request ''p'' ''hf_demo'' ''google/flan-t5-large'') = Inr not_found"
    by code_simp
  have h2: "status_code not_found = 404"
    by (simp add: not_found_def)
  have h3: "fallbacks_all_fail ?net ''p'' ''hf_demo'' (fallback_models (\<lambda>k. None))
              ([] @ [HttpPost (hf_request ''p'' ''hf_demo'' ''google/flan-t5-large'')])"
    by code_simp
  have body: "resp_json not_found = Inr (JObject [(''error'', JString ''Not Found'')])"
    by (simp add: not_found_def)
  have shown: "py_str (JObject [(''error'', JString ''Not Found'')]) = ''{'error': 'Not Found'}''"
    by code_simp
  have fms: "fallback_models (\<lambda>k. None) = [''gpt2'', ''bigscience/bloom-560m'', ''facebook/opt-350m'']"
    by (simp add: fallback_models_def)
  from exhausted_fallbacks_original_error [where net = ?net and log = "[]" and env = "\<lambda>k. None", OF h1 h2 h3] h1 h2 h3
  show ?thesis
    by (simp add: body shown fms)
qed

subsection \<open>The first fallback that answers 200 ends the loop\<close>

text \<open>
  Claim C3. When the primary answer has status 404 and the first fallback model answers
  200 with the body \<^verbatim>\<open>{"generated_text": y}\<close>, the result is the success \<open>y\<close>, and the only
  requests sent are the primary one and the one to that first model.
\<close>

theorem first_fallback_success_stops:
  assumes "net log (hf_request prompt hf_key model) = Inr resp"
    and "status_code resp = 404"
    and "fallback_models env = fm # fms"
    and "net (log @ [HttpPost (hf_request prompt hf_key model)]) (hf_request prompt hf_key fm) = Inr resp2"
    and "status_code resp2 = 200"
    and "resp_json resp2 = Inr (JObject [(''generated_text'', JString y)])"
  shows "call_huggingface net env prompt hf_key model log =
           (Inr (True, JString y),
            log @ [HttpPost (hf_request prompt hf_key model), HttpPost (hf_request prompt hf_key fm)])"
  using assms
  by (simp add: call_huggingface_def Let_def fallback_parse_def list_cond_def py_and_def exn_bind_def)

theorem first_fallback_success_stops_witness:
  "call_huggingface
     (net_by_url
        [(hf_url ''google/flan-t5-large'', not_found),
         (hf_url ''gpt2'', ok_json (JObject [(''generated_text'', JString ''Y'')])),
         (hf_url ''bigscience/bloom-560m'', ok_json (JObject [(''generated_text'', JString ''Z'')]))])
     (\<lambda>k. None) ''p'' ''hf_demo'' ''google/flan-t5-large'' []
   = (Inr (True, JString ''Y''),
      [HttpPost (hf_request ''p'' ''hf_demo'' ''google/flan-t5-large''),
       HttpPost (hf_request ''p'' ''hf_demo'' ''gpt2'')])"
proof -
  let ?net = "net_by_url
        [(hf_url ''google/flan-t5-large'', not_found),
         (hf_url ''gpt2'', ok_json (JObject [(''generated_text'', JString ''Y'')])),
         (hf_url ''bigscience/bloom-560m'', ok_json (JObject [(''generated_text'', JString ''Z'')]))]"
  have h1: "?net [] (hf_request ''p'' ''hf_demo'' ''google/flan-t5-large'') = Inr not_found"
    by code_simp
  have h2: "status_code not_found = 404"
    by (simp add: not_found_def)
  have h3: "fallback_models (\<lambda>k. None) = ''gpt2'' # [''bigscience/bloom-560m'', ''facebook/opt-350m'']"
    by (simp add: fallback_models_def)
  have h4: "?net ([] @ [HttpPost (hf_request ''p'' ''hf_demo'' ''google/flan-t5-large'')])
              (hf_request ''p'' ''hf_demo'' ''gpt2'')
            = Inr (ok_json (JObject [(''generated_text'', JString ''Y'')]))"
    by code_simp
  have h5: "status_code (ok_json (JObject [(''generated_text'', JString ''Y'')])) = 200"
    by (simp add: ok_json_def)
  have h6: "resp_json (ok_json (JObject [(''generated_text'', JString ''Y'')]))
            = Inr (JObject [(''generated_text'', JString ''Y'')])"
    by (simp add: ok_json_def)
  from first_fallback_success_stops [where net = ?net and log = "[]" and env = "\<lambda>k. None", OF h1 h2 h3 h4 h5 h6] show ?thesis
    by simp
qed

subsection \<open>A primary 200 answer that carries an error\<close>

text \<open>
  Claim C4. When the primary answer has status 200 and decodes to \<^verbatim>\<open>{"error": "blew up"}\<close>,
  the result is the failure with the text \<^verbatim>\<open>HF error: blew up\<close>.
\<close>

theorem primary_error_body_is_failure:
  assumes "net log (hf_request prompt hf_key model) = Inr resp"
    and "status_code resp = 200"
    and "resp_json resp = Inr (JObject [(''error'', JString ''blew up'')])"
  shows "call_huggingface net env prompt hf_key model log =
           (Inr (False, JString ''HF error: blew up''),
            log @ [HttpPost (hf_request prompt hf_key model)])"
  using assms
  by (simp add: call_huggingface_def Let_def primary_parse_def list_cond_def py_and_def exn_bind_def py_str_def)

theorem primary_error_body_is_failure_witness:
  "call_huggingface
     (net_by_url [(hf_url ''google/flan-t5-large'', ok_json (JObject [(''error'', JString ''blew up'')]))])
     (\<lambda>k. None) ''p'' ''hf_demo'' ''google/flan-t5-large'' []
   = (Inr (False, JString ''HF error: blew up''),
      [HttpPost (hf_request ''p'' ''hf_demo'' ''google/flan-t5-large'')])"
proof -
  let ?r = "ok_json (JObject [(''error'', JString ''blew up'')])"
  let ?net = "net_by_url [(hf_url ''google/flan-t5-large'', ?r)]"
  have h1: "?net [] (hf_request ''p'' ''hf_demo'' ''google/flan-t5-large'') = Inr ?r"
    by code_simp
  have h2: "status_code ?r = 200"
    by (simp add: ok_json_def)
  have h3: "resp_json ?r = Inr (JObject [(''error'', JString ''blew up'')])"
    by (simp add: ok_json_def)
  from primary_error_body_is_failure [where net = ?net and log = "[]" and env = "\<lambda>k. None", OF h1 h2 h3] show ?thesis
    by simp
qed

subsection \<open>Requests without code\<close>

text \<open>
  Claim C5, amended. The claim speaks of every request whose \<^verbatim>\<open>code\<close> is missing or empty.
  That holds of the requests whose body is a JSON object: when \<^verbatim>\<open>code\<close> is absent from the
  object, or present with an empty (false) value, \<^verbatim>\<open>generate_docs\<close> answers 400 with the
  body \<^verbatim>\<open>{"error": "No code provided"}\<close>, and the record of outside calls is unchanged: no
  provider was contacted. It does not hold of a body that is valid JSON of another shape,
  as the run after the example shows.
\<close>

theorem missing_code_rejected:
  assumes "case map_of kvs ''code'' of None \<Rightarrow> True | Some v \<Rightarrow> \<not> py_truthy v"
  shows "generate_docs OpenAI net env (Inr (JObject kvs)) log =
           ((JObject [(''error'', JString ''No code provided'')], 400), log)"
  using assms
  by (auto simp add: generate_docs_def generate_docs_try_def exn_bind_def split: option.splits)

theorem missing_code_rejected_witness:
  "generate_docs (Some working_sdk) (net_by_url []) hf_env (Inr (JObject [])) []
     = ((JObject [(''error'', JString ''No code provided'')], 400), [])
   \<and> generate_docs (Some working_sdk) (net_by_url []) hf_env (body_with_code []) []
     = ((JObject [(''error'', JString ''No code provided'')], 400), [])"
proof -
  have h1: "case map_of ([] :: (string \<times> json) list) ''code'' of None \<Rightarrow> True | Some v \<Rightarrow> \<not> py_truthy v"
    by simp
  have h2: "case map_of [(''code'', JString [])] ''code'' of None \<Rightarrow> True | Some v \<Rightarrow> \<not> py_truthy v"
    by simp
  from missing_code_rejected [OF h1] missing_code_rejected [OF h2] show ?thesis
    by (simp add: body_with_code_def)
qed

text \<open>
  The body \<^verbatim>\<open>[]\<close> is valid JSON and has no \<^verbatim>\<open>code\<close>. A list has no \<^verbatim>\<open>get\<close>, so line 124
  raises \<^verbatim>\<open>AttributeError\<close> inside the \<^verbatim>\<open>try\<close> and the catch-all of lines 168 and 169
  answers 500, not 400.
\<close>

theorem missing_code_non_object_counterexample:
  "py_contains ''code'' (JArray []) = Inr False
   \<and> generate_docs None (net_by_url []) hf_env (Inr (JArray [])) [] =
       ((JObject [(''error'', JString (CHR 0x27 # ''list' object has no attribute 'get'' @ [CHR 0x27]))],
         500), [])
   \<and> snd (fst (generate_docs None (net_by_url []) hf_env (Inr (JArray [])) [])) \<noteq> 400"
  by code_simp

subsection \<open>No usable credential\<close>

text \<open>
  Claim C6. When \<^verbatim>\<open>HUGGINGFACE_API_KEY\<close> is unset or does not start with \<^verbatim>\<open>hf_\<close>, and
  \<^verbatim>\<open>OPENAI_API_KEY\<close> is unset or does not start with \<^verbatim>\<open>sk-\<close>, \<^verbatim>\<open>generate_docs\<close> contacts
  neither provider, whatever the request: the record of outside calls is unchanged. The
  status is 400 for every request whose body is a JSON object, and for a request that
  passed the check of \<^verbatim>\<open>code\<close> the answer is 400 with the message
  \<^verbatim>\<open>No API key found. Set HUGGINGFACE_API_KEY (hf_...) or OPENAI_API_KEY (sk_...).\<close>
\<close>

theorem no_api_key_rejected:
  assumes "\<forall>k. env ''HUGGINGFACE_API_KEY'' = Some k \<longrightarrow> \<not> prefix ''hf_'' k"
    and "\<forall>k. env ''OPENAI_API_KEY'' = Some k \<longrightarrow> \<not> prefix ''sk-'' k"
  shows "snd (generate_docs OpenAI net env request_json log) = log
       \<and> (\<forall>kvs. request_json = Inr (JObject kvs) \<longrightarrow>
            snd (fst (generate_docs OpenAI net env request_json log)) = 400)
       \<and> (\<forall>j code. request_json = Inr j \<and> py_get j ''code'' = Inr code \<and> py_truthy code \<longrightarrow>
            fst (generate_docs OpenAI net env request_json log) =
              (JObject [(''error'', JString
                  ''No API key found. Set HUGGINGFACE_API_KEY (hf_...) or OPENAI_API_KEY (sk_...).'')],
               400))"
proof -
  have hf: "key_with_prefix ''hf_'' (env ''HUGGINGFACE_API_KEY'') = None"
    using assms(1) by (simp add: key_with_prefix_None)
  have sk: "key_with_prefix ''sk-'' (env ''OPENAI_API_KEY'') = None"
    using assms(2) by (simp add: key_with_prefix_None)
  have "snd (generate_docs OpenAI net env request_json log) = log"
    using generate_docs_try_no_key_log [OF hf sk, of OpenAI net request_json log]
    by (cases "generate_docs_try OpenAI net env request_json log")
       (auto simp add: generate_docs_def split: sum.splits)
  moreover have "snd (fst (generate_docs OpenAI net env (Inr (JObject kvs)) log)) = 400" for kvs
    using hf sk
    by (simp add: generate_docs_def generate_docs_try_def exn_bind_def Let_def)
  moreover have "fst (generate_docs OpenAI net env (Inr j) log) =
              (JObject [(''error'', JString
                  ''No API key found. Set HUGGINGFACE_API_KEY (hf_...) or OPENAI_API_KEY (sk_...).'')],
               400)" if "py_get j ''code'' = Inr code" "py_truthy code" for j code
    using that hf sk
    by (simp add: generate_docs_def generate_docs_try_def exn_bind_def Let_def no_key_message_def)
  ultimately show ?thesis by blast
qed

theorem no_api_key_rejected_witness:
  "generate_docs (Some working_sdk) (net_by_url [])
     [''HUGGINGFACE_API_KEY'' \<mapsto> ''demo'', ''OPENAI_API_KEY'' \<mapsto> ''sk_demo'']
     (body_with_code ''x = 1'') []
   = ((JObject [(''error'', JString
         ''No API key found. Set HUGGINGFACE_API_KEY (hf_...) or OPENAI_API_KEY (sk_...).'')],
       400), [])"
proof -
  let ?env = "[''HUGGINGFACE_API_KEY'' \<mapsto> ''demo'', ''OPENAI_API_KEY'' \<mapsto> ''sk_demo''] :: environ"
  have h1: "\<forall>k. ?env ''HUGGINGFACE_API_KEY'' = Some k \<longrightarrow> \<not> prefix ''hf_'' k"
    by simp
  have h2: "\<forall>k. ?env ''OPENAI_API_KEY'' = Some k \<longrightarrow> \<not> prefix ''sk-'' k"
    by simp
  have h3: "py_get (JObject [(''code'', JString ''x = 1'')]) ''code'' = Inr (JString ''x = 1'')"
    by simp
  have h4: "py_truthy (JString ''x = 1'')"
    by simp
  from no_api_key_rejected [where env = ?env and OpenAI = "Some working_sdk" and net = "net_by_url []"
      and request_json = "body_with_code ''x = 1''" and log = "[]", OF h1 h2] h3 h4
  show ?thesis
    by (simp add: body_with_code_def prod_eq_iff)
qed

subsection \<open>Provider outcomes and status codes\<close>

text \<open>
  Claim C8. The claim says that both clients always hand back a (success, text) pair, and
  both functions are annotated \<^verbatim>\<open>tuple[bool, str]\<close>. On success, lines 76, 80 and 84 (and
  57, 59, 61, 106 and 109) return the value found in the response as it is, with no
  \<^verbatim>\<open>str(...)\<close> around it, unlike the last resort of line 86. In the run below the primary
  model answers 200 with \<^verbatim>\<open>{"generated_text": null}\<close>: \<^verbatim>\<open>call_huggingface\<close> returns
  \<^verbatim>\<open>(True, None)\<close>, whose second component is not text, and \<^verbatim>\<open>generate_docs\<close> answers 200
  with \<^verbatim>\<open>{"documentation": null}\<close>.
\<close>

theorem success_value_not_text:
  "call_huggingface
     (net_by_url [(hf_url ''google/flan-t5-large'', ok_json (JObject [(''generated_text'', JNull)]))])
     hf_env ''p'' ''hf_demo'' ''google/flan-t5-large'' []
   = (Inr (True, JNull), [HttpPost (hf_request ''p'' ''hf_demo'' ''google/flan-t5-large'')])
   \<and> generate_docs None
       (net_by_url [(hf_url ''google/flan-t5-large'', ok_json (JObject [(''generated_text'', JNull)]))])
       hf_env (body_with_code ''x = 1'') []
     = ((JObject [(''documentation'', JNull)], 200),
        [HttpPost (hf_request (build_prompt (JString ''x = 1'')) ''hf_demo'' ''google/flan-t5-large'')])"
  by code_simp

text \<open>
  The rest holds on every input. For every network, environment, SDK and argument,
  \<^verbatim>\<open>call_huggingface\<close> and \<^verbatim>\<open>call_openai\<close> return a pair and never an exception, and the
  second component of a failure is a \<^verbatim>\<open>str\<close>. The status code comes from \<^verbatim>\<open>generate_docs\<close>
  alone: for a request with code, when a provider is chosen, the answer is 200 with
  \<^verbatim>\<open>documentation\<close> on success and 502 with \<^verbatim>\<open>error\<close> on failure, with the provider's second
  component as the value.
\<close>

theorem providers_never_raise:
  "(\<exists>ok v log'. call_huggingface net env prompt hf_key model log = (Inr (ok, v), log')
        \<and> (ok \<or> (\<exists>m. v = JString m)))
   \<and> (\<exists>ok v log'. call_openai OpenAI prompt openai_key model log = (Inr (ok, v), log')
        \<and> (ok \<or> (\<exists>m. v = JString m)))
   \<and> (\<forall>j code k. py_get j ''code'' = Inr code \<and> py_truthy code
          \<and> env ''HUGGINGFACE_API_KEY'' = Some k \<and> prefix ''hf_'' k \<longrightarrow>
        (\<exists>ok v log'.
           call_huggingface net env (build_prompt code) k
             (case env ''HUGGINGFACE_MODEL'' of None \<Rightarrow> ''google/flan-t5-large'' | Some m \<Rightarrow> m) log
             = (Inr (ok, v), log')
           \<and> generate_docs OpenAI net env (Inr j) log =
               (if ok then (JObject [(''documentation'', v)], 200)
                else (JObject [(''error'', v)], 502), log')))
   \<and> (\<forall>j code k. py_get j ''code'' = Inr code \<and> py_truthy code
          \<and> (\<forall>h. env ''HUGGINGFACE_API_KEY'' = Some h \<longrightarrow> \<not> prefix ''hf_'' h)
          \<and> env ''OPENAI_API_KEY'' = Some k \<and> prefix ''sk-'' k \<longrightarrow>
        (\<exists>ok v log'.
           call_openai OpenAI (build_prompt code) k ''gpt-3.5-turbo'' log = (Inr (ok, v), log')
           \<and> generate_docs OpenAI net env (Inr j) log =
               (if ok then (JObject [(''documentation'', v)], 200)
                else (JObject [(''error'', v)], 502), log')))"
proof -
  have d1: "\<exists>ok v log'.
           call_huggingface net env (build_prompt code) k
             (case env ''HUGGINGFACE_MODEL'' of None \<Rightarrow> ''google/flan-t5-large'' | Some m \<Rightarrow> m) log
             = (Inr (ok, v), log')
           \<and> generate_docs OpenAI net env (Inr j) log =
               (if ok then (JObject [(''documentation'', v)], 200)
                else (JObject [(''error'', v)], 502), log')"
    if "py_get j ''code'' = Inr code" "py_truthy code"
      "env ''HUGGINGFACE_API_KEY'' = Some k" "prefix ''hf_'' k" for j code k
  proof -
    let ?m = "case env ''HUGGINGFACE_MODEL'' of None \<Rightarrow> ''google/flan-t5-large'' | Some m \<Rightarrow> m"
    have key: "key_with_prefix ''hf_'' (env ''HUGGINGFACE_API_KEY'') = Some k"
      using that(3,4) by (rule key_with_prefix_Some)
    obtain ok v log' where run:
      "call_huggingface net env (build_prompt code) k ?m log = (Inr (ok, v), log')"
      using call_huggingface_returns [of net env "build_prompt code" k ?m log] by blast
    have "generate_docs OpenAI net env (Inr j) log =
               (if ok then (JObject [(''documentation'', v)], 200)
                else (JObject [(''error'', v)], 502), log')"
      using that(1,2) key run
      by (simp add: generate_docs_def generate_docs_try_def exn_bind_def Let_def respond_def)
    with run show ?thesis by blast
  qed
  have d2: "\<exists>ok v log'.
           call_openai OpenAI (build_prompt code) k ''gpt-3.5-turbo'' log = (Inr (ok, v), log')
           \<and> generate_docs OpenAI net env (Inr j) log =
               (if ok then (JObject [(''documentation'', v)], 200)
                else (JObject [(''error'', v)], 502), log')"
    if "py_get j ''code'' = Inr code" "py_truthy code"
      "\<forall>h. env ''HUGGINGFACE_API_KEY'' = Some h \<longrightarrow> \<not> prefix ''hf_'' h"
      "env ''OPENAI_API_KEY'' = Some k" "prefix ''sk-'' k" for j code k
  proof -
    have hf: "key_with_prefix ''hf_'' (env ''HUGGINGFACE_API_KEY'') = None"
      using that(3) by (simp add: key_with_prefix_None)
    have sk: "key_with_prefix ''sk-'' (env ''OPENAI_API_KEY'') = Some k"
      using that(4,5) by (rule key_with_prefix_Some)
    obtain ok v log' where run:
      "call_openai OpenAI (build_prompt code) k ''gpt-3.5-turbo'' log = (Inr (ok, v), log')"
      using call_openai_returns [of OpenAI "build_prompt code" k "''gpt-3.5-turbo''" log] by blast
    have "generate_docs OpenAI net env (Inr j) log =
               (if ok then (JObject [(''documentation'', v)], 200)
                else (JObject [(''error'', v)], 502), log')"
      using that(1,2) hf sk run
      by (simp add: generate_docs_def generate_docs_try_def exn_bind_def Let_def respond_def)
    with run show ?thesis by blast
  qed
  from call_huggingface_returns [of net env prompt hf_key model log]
       call_openai_returns [of OpenAI prompt openai_key model log] d1 d2
  show ?thesis by blast
qed

theorem providers_never_raise_witness:
  "generate_docs None (net_by_url []) hf_env (body_with_code ''x = 1'') [] =
     ((JObject [(''error'', JString ''Request error: Connection refused'')], 502),
      [HttpPost (hf_request (build_prompt (JString ''x = 1'')) ''hf_demo'' ''google/flan-t5-large'')])
   \<and> generate_docs (Some working_sdk) (net_by_url []) openai_env (body_with_code ''x = 1'') [] =
     ((JObject [(''documentation'', JString ''Adds two numbers.'')], 200),
      [OpenAINew ''sk-demo'',
       ChatCreate (openai_request (build_prompt (JString ''x = 1'')) ''gpt-3.5-turbo'')])"
proof -
  let ?j = "JObject [(''code'', JString ''x = 1'')]"
  let ?P = "build_prompt (JString ''x = 1'')"
  have code: "py_get ?j ''code'' = Inr (JString ''x = 1'') \<and> py_truthy (JString ''x = 1'')"
    by simp
  have k1: "hf_env ''HUGGINGFACE_API_KEY'' = Some ''hf_demo'' \<and> prefix ''hf_'' ''hf_demo''"
    by (simp add: hf_env_def)
  have m1: "hf_env ''HUGGINGFACE_MODEL'' = None"
    by (simp add: hf_env_def)
  have k2: "(\<forall>h. openai_env ''HUGGINGFACE_API_KEY'' = Some h \<longrightarrow> \<not> prefix ''hf_'' h)
            \<and> openai_env ''OPENAI_API_KEY'' = Some ''sk-demo'' \<and> prefix ''sk-'' ''sk-demo''"
    by (simp add: openai_env_def)
  have run1: "call_huggingface (net_by_url []) hf_env ?P ''hf_demo'' ''google/flan-t5-large'' [] =
      (Inr (False, JString ''Request error: Connection refused''),
       [HttpPost (hf_request ?P ''hf_demo'' ''google/flan-t5-large'')])"
    by code_simp
  have run2: "call_openai (Some working_sdk) ?P ''sk-demo'' ''gpt-3.5-turbo'' [] =
      (Inr (True, JString ''Adds two numbers.''),
       [OpenAINew ''sk-demo'', ChatCreate (openai_request ?P ''gpt-3.5-turbo'')])"
    by code_simp
  from providers_never_raise [where net = "net_by_url []" and env = hf_env and OpenAI = None
      and log = "[]"] code k1
  obtain ok v log' where
    "call_huggingface (net_by_url []) hf_env ?P ''hf_demo''
       (case hf_env ''HUGGINGFACE_MODEL'' of None \<Rightarrow> ''google/flan-t5-large'' | Some m \<Rightarrow> m) []
       = (Inr (ok, v), log')"
    "generate_docs None (net_by_url []) hf_env (Inr ?j) [] =
       (if ok then (JObject [(''documentation'', v)], 200)
        else (JObject [(''error'', v)], 502), log')"
    by blast
  with run1 m1 have r1: "generate_docs None (net_by_url []) hf_env (Inr ?j) [] =
     ((JObject [(''error'', JString ''Request error: Connection refused'')], 502),
      [HttpPost (hf_request ?P ''hf_demo'' ''google/flan-t5-large'')])"
    by simp
  from providers_never_raise [where net = "net_by_url []" and env = openai_env
      and OpenAI = "Some working_sdk" and log = "[]"] code k2
  obtain ok2 v2 log2 where
    "call_openai (Some working_sdk) ?P ''sk-demo'' ''gpt-3.5-turbo'' [] = (Inr (ok2, v2), log2)"
    "generate_docs (Some working_sdk) (net_by_url []) openai_env (Inr ?j) [] =
       (if ok2 then (JObject [(''documentation'', v2)], 200)
        else (JObject [(''error'', v2)], 502), log2)"
    by blast
  with run2 have r2: "generate_docs (Some working_sdk) (net_by_url []) openai_env (Inr ?j) [] =
     ((JObject [(''documentation'', JString ''Adds two numbers.'')], 200),
      [OpenAINew ''sk-demo'', ChatCreate (openai_request ?P ''gpt-3.5-turbo'')])"
    by simp
  from r1 r2 show ?thesis
    by (simp add: body_with_code_def)
qed

subsection \<open>The prompt\<close>

text \<open>
  Claim C9. For every non-empty \<^verbatim>\<open>str\<close> \<open>c\<close> given as \<^verbatim>\<open>code\<close>, the prompt built in lines 129
  to 133 contains \<open>c\<close> as a contiguous part and starts with the fixed instruction text;
  and this prompt is what \<^verbatim>\<open>generate_docs\<close> sends: as \<^verbatim>\<open>inputs\<close> of the first request to the
  inference API when that provider is chosen, as the user message of the chat request
  when the other is chosen and its client could be built.
\<close>

theorem prompt_contains_code:
  assumes "c \<noteq> []" and "map_of kvs ''code'' = Some (JString c)"
  shows "sublist c (build_prompt (JString c))
       \<and> prefix instruction_text (build_prompt (JString c))
       \<and> (\<forall>k. env ''HUGGINGFACE_API_KEY'' = Some k \<and> prefix ''hf_'' k \<longrightarrow>
            (\<exists>rest. snd (generate_docs OpenAI net env (Inr (JObject kvs)) log) =
               log @ HttpPost (hf_request (build_prompt (JString c)) k
                        (case env ''HUGGINGFACE_MODEL'' of
                           None \<Rightarrow> ''google/flan-t5-large'' | Some m \<Rightarrow> m)) # rest))
       \<and> (\<forall>k new_client client.
            (\<forall>h. env ''HUGGINGFACE_API_KEY'' = Some h \<longrightarrow> \<not> prefix ''hf_'' h)
            \<and> env ''OPENAI_API_KEY'' = Some k \<and> prefix ''sk-'' k
            \<and> OpenAI = Some new_client \<and> new_client k = Inr client \<longrightarrow>
            snd (generate_docs OpenAI net env (Inr (JObject kvs)) log) =
               log @ [OpenAINew k,
                      ChatCreate (openai_request (build_prompt (JString c)) ''gpt-3.5-turbo'')])"
proof -
  let ?P = "build_prompt (JString c)"
  have code: "py_get (JObject kvs) ''code'' = Inr (JString c)" "py_truthy (JString c)"
    using assms by simp_all
  have "?P = (instruction_text @ ''Code:\<newline>'') @ c @ ''\<newline>\<newline>Documentation:''"
    by (simp add: build_prompt_def py_str_def)
  then have a: "sublist c ?P"
    unfolding sublist_def by blast
  have b: "prefix instruction_text ?P"
    by (simp add: build_prompt_def)
  have c1: "\<exists>rest. snd (generate_docs OpenAI net env (Inr (JObject kvs)) log) =
               log @ HttpPost (hf_request ?P k
                        (case env ''HUGGINGFACE_MODEL'' of
                           None \<Rightarrow> ''google/flan-t5-large'' | Some m \<Rightarrow> m)) # rest"
    if "env ''HUGGINGFACE_API_KEY'' = Some k" "prefix ''hf_'' k" for k
  proof -
    let ?m = "case env ''HUGGINGFACE_MODEL'' of None \<Rightarrow> ''google/flan-t5-large'' | Some m \<Rightarrow> m"
    have key: "key_with_prefix ''hf_'' (env ''HUGGINGFACE_API_KEY'') = Some k"
      using that by (rule key_with_prefix_Some)
    obtain r log' where run: "call_huggingface net env ?P k ?m log = (r, log')"
      by (cases "call_huggingface net env ?P k ?m log")
    obtain rest where "log' = log @ HttpPost (hf_request ?P k ?m) # rest"
      using call_huggingface_log [of net env ?P k ?m log] run by auto
    moreover have "snd (generate_docs OpenAI net env (Inr (JObject kvs)) log) = log'"
      using code key run
      by (simp add: generate_docs_def generate_docs_try_def exn_bind_def Let_def split: sum.splits)
    ultimately show ?thesis by blast
  qed
  have c2: "snd (generate_docs OpenAI net env (Inr (JObject kvs)) log) =
               log @ [OpenAINew k, ChatCreate (openai_request ?P ''gpt-3.5-turbo'')]"
    if "\<forall>h. env ''HUGGINGFACE_API_KEY'' = Some h \<longrightarrow> \<not> prefix ''hf_'' h"
      "env ''OPENAI_API_KEY'' = Some k" "prefix ''sk-'' k"
      "OpenAI = Some new_client" "new_client k = Inr client" for k new_client client
  proof -
    have hf: "key_with_prefix ''hf_'' (env ''HUGGINGFACE_API_KEY'') = None"
      using that(1) by (simp add: key_with_prefix_None)
    have sk: "key_with_prefix ''sk-'' (env ''OPENAI_API_KEY'') = Some k"
      using that(2,3) by (rule key_with_prefix_Some)
    have "snd (call_openai OpenAI ?P k ''gpt-3.5-turbo'' log) =
            log @ [OpenAINew k, ChatCreate (openai_request ?P ''gpt-3.5-turbo'')]"
      using that(4,5) by (simp add: call_openai_def Let_def split: sum.splits)
    then show ?thesis
      using code hf sk
      by (cases "call_openai OpenAI ?P k ''gpt-3.5-turbo'' log")
         (simp add: generate_docs_def generate_docs_try_def exn_bind_def Let_def split: sum.splits)
  qed
  from a b c1 c2 show ?thesis by blast
qed

theorem prompt_contains_code_witness:
  "build_prompt (JString ''x = 1'') =
     ''Please generate ONLY a documentation docstring or block comment for the following code. Return only the docstring or comment text (no extra explanation).\<newline>\<newline>Code:\<newline>x = 1\<newline>\<newline>Documentation:''
   \<and> sublist ''x = 1'' (build_prompt (JString ''x = 1''))
   \<and> prefix instruction_text (build_prompt (JString ''x = 1''))
   \<and> (\<exists>rest. snd (generate_docs None (net_by_url []) hf_env (body_with_code ''x = 1'') []) =
          HttpPost (hf_request (build_prompt (JString ''x = 1'')) ''hf_demo'' ''google/flan-t5-large'')
            # rest)
   \<and> snd (generate_docs (Some working_sdk) (net_by_url []) openai_env (body_with_code ''x = 1'') []) =
          [OpenAINew ''sk-demo'',
           ChatCreate (openai_request (build_prompt (JString ''x = 1'')) ''gpt-3.5-turbo'')]"
proof -
  let ?kvs = "[(''code'', JString ''x = 1'')]"
  have h1: "''x = 1'' \<noteq> []"
    by simp
  have h2: "map_of ?kvs ''code'' = Some (JString ''x = 1'')"
    by simp
  note hf_run = prompt_contains_code [where c = "''x = 1''" and kvs = ?kvs and env = hf_env
      and OpenAI = None and net = "net_by_url []" and log = "[]", OF h1 h2]
  note openai_run = prompt_contains_code [where c = "''x = 1''" and kvs = ?kvs and env = openai_env
      and OpenAI = "Some working_sdk" and net = "net_by_url []" and log = "[]", OF h1 h2]
  have shown: "build_prompt (JString ''x = 1'') =
     ''Please generate ONLY a documentation docstring or block comment for the following code. Return only the docstring or comment text (no extra explanation).\<newline>\<newline>Code:\<newline>x = 1\<newline>\<newline>Documentation:''"
    by code_simp
  have k1: "hf_env ''HUGGINGFACE_API_KEY'' = Some ''hf_demo'' \<and> prefix ''hf_'' ''hf_demo''"
    by (simp add: hf_env_def)
  have m1: "hf_env ''HUGGINGFACE_MODEL'' = None"
    by (simp add: hf_env_def)
  have k2: "(\<forall>h. openai_env ''HUGGINGFACE_API_KEY'' = Some h \<longrightarrow> \<not> prefix ''hf_'' h)
            \<and> openai_env ''OPENAI_API_KEY'' = Some ''sk-demo'' \<and> prefix ''sk-'' ''sk-demo''"
    by (simp add: openai_env_def)
  obtain client where k3: "working_sdk ''sk-demo'' = Inr client"
    by (simp add: working_sdk_def)
  from hf_run k1 m1 have p3:
    "\<exists>rest. snd (generate_docs None (net_by_url []) hf_env (body_with_code ''x = 1'') []) =
          HttpPost (hf_request (build_prompt (JString ''x = 1'')) ''hf_demo'' ''google/flan-t5-large'')
            # rest"
    by (fastforce simp add: body_with_code_def)
  from openai_run k2 k3 have p4:
    "snd (generate_docs (Some working_sdk) (net_by_url []) openai_env (body_with_code ''x = 1'') []) =
          [OpenAINew ''sk-demo'',
           ChatCreate (openai_request (build_prompt (JString ''x = 1'')) ''gpt-3.5-turbo'')]"
    by (fastforce simp add: body_with_code_def)
  from hf_run shown p3 p4 show ?thesis
    by blast
qed

subsection \<open>A body that cannot be read\<close>

text \<open>
  Claim C10. When reading \<^verbatim>\<open>request.json\<close> raises, as it does for a body that is not JSON,
  the catch-all of lines 168 and 169 answers 500 with the text of the exception, not the
  400 of the check of \<^verbatim>\<open>code\<close>, and no provider is contacted. The same status results
  when \<^verbatim>\<open>request.json\<close> is \<^verbatim>\<open>None\<close>, where \<^verbatim>\<open>.get\<close> raises.
\<close>

theorem unreadable_body_is_500:
  "generate_docs OpenAI net env (Inl e) log = ((JObject [(''error'', JString (exn_str e))], 500), log)
   \<and> generate_docs OpenAI net env (Inr JNull) log =
       ((JObject [(''error'', JString (CHR 0x27 # ''NoneType' object has no attribute 'get'' @ [CHR 0x27]))],
         500), log)"
proof -
  have "py_get JNull ''code'' =
      Inl (AttributeError (CHR 0x27 # ''NoneType' object has no attribute 'get'' @ [CHR 0x27]))"
    by code_simp
  then show ?thesis
    by (simp add: generate_docs_def generate_docs_try_def exn_bind_def)
qed

end
